theory Spec2Isabelle
  imports Main
begin

section \<open>The ClamAV scanner Lambda (aws-migration/lambda/clamav-scanner/index.py)\<close>

text \<open>
  The handler is orchestration around three external collaborators: the S3 client, the
  \<open>clamscan\<close> executable and the SNS client. The embedding keeps the control flow of the
  source (every \<open>try\<close>, \<open>except\<close>, \<open>finally\<close>, \<open>raise\<close> and \<open>return\<close>) and makes the
  collaborators explicit:
  \<^item> what each external call answers during one invocation is a field of the record \<open>env\<close>;
  \<^item> every external call the handler issues is appended to the \<open>trace\<close> of the \<open>world\<close>,
    with the arguments the source passes;
  \<^item> a Python exception is a value of \<open>exn\<close>, and a function that can raise returns
    \<open>exn + 'a\<close> (\<open>Inl\<close> the exception) together with the world it leaves behind.
  Lines written with \<open>print\<close> are not part of the model, except the line that stands for an
  alert when no SNS topic is configured.
\<close>

subsection \<open>Values, exceptions, configuration\<close>

text \<open>The event is what \<open>json.loads\<close> produced (numbers are integers in the model).\<close>

datatype json =
    JNull
  | JBool bool
  | JInt int
  | JStr string
  | JList "json list"
  | JObj "(string \<times> json) list"

text \<open>
  The exception classes that the source raises, catches by name or can receive from a
  library call. \<open>ValueError\<close> carries the event of \<open>ValueError(f"Unknown event format: {event}")\<close>,
  \<open>KeyError\<close> the missing key. \<open>ClientError\<close> is \<open>botocore.exceptions.ClientError\<close>,
  \<open>TimeoutExpired\<close> is \<open>subprocess.TimeoutExpired\<close>, and \<open>OtherError\<close> is any further
  subclass of \<open>Exception\<close> (an \<open>OSError\<close> of the subprocess, a botocore error that is not a
  \<open>ClientError\<close>).
\<close>

datatype exn =
    ValueError json
  | KeyError json
  | IndexError
  | TypeError
  | AttributeError
  | ClientError string
  | TimeoutExpired
  | OtherError string

fun is_ClientError :: "exn \<Rightarrow> bool" where
  "is_ClientError (ClientError m) = True"
| "is_ClientError e = False"

definition ebind :: "exn + 'a \<Rightarrow> ('a \<Rightarrow> exn + 'b) \<Rightarrow> exn + 'b" where
  "ebind m f = (case m of Inl e \<Rightarrow> Inl e | Inr x \<Rightarrow> f x)"

text \<open>
  The module-level configuration, read once from the process environment.
  \<open>MAX_FILE_SIZE_MB\<close> is the integer \<open>int(os.environ.get('MAX_FILE_SIZE_MB', '500'))\<close>.
\<close>

record config =
  QUARANTINE_BUCKET :: string
  ALERT_TOPIC_ARN :: string
  CLAM_DB_PATH :: string
  CLAMSCAN_PATH :: string
  MAX_FILE_SIZE_MB :: int

definition MAX_FILE_SIZE :: "config \<Rightarrow> int" where
  "MAX_FILE_SIZE c = MAX_FILE_SIZE_MB c * 1024 * 1024"

definition default_config :: config where
  "default_config =
     \<lparr> QUARANTINE_BUCKET = [],
       ALERT_TOPIC_ARN = [],
       CLAM_DB_PATH = ''/opt/clamav/share/clamav'',
       CLAMSCAN_PATH = ''/opt/clamav/bin/clamscan'',
       MAX_FILE_SIZE_MB = 500 \<rparr>"

definition SKIP_EXTENSIONS :: "string set" where
  "SKIP_EXTENSIONS =
     {''.jpg'', ''.jpeg'', ''.png'', ''.gif'', ''.webp'', ''.heic'', ''.heif'', ''.avif'',
      ''.mp4'', ''.mov'', ''.webm'', ''.m4v'', ''.avi'',
      ''.mp3'', ''.m4a'', ''.wav'', ''.aac'', ''.flac'', ''.ogg''}"

subsection \<open>Strings\<close>

text \<open>
  A \<open>char\<close> is one character of a Python \<open>str\<close> with code point below 256.
  \<open>lower_char\<close> is \<open>str.lower\<close> on such a character, \<open>py_isspace\<close> is \<open>str.isspace\<close>,
  \<open>strip\<close> is \<open>str.strip()\<close> and \<open>py_or a b\<close> is \<open>a or b\<close> on two strings.
\<close>

definition lower_char :: "char \<Rightarrow> char" where
  "lower_char c =
     (let n = (of_char c :: nat)
      in if (65 \<le> n \<and> n \<le> 90) \<or> (192 \<le> n \<and> n \<le> 222 \<and> n \<noteq> 215)
         then char_of (n + 32) else c)"

definition lower :: "string \<Rightarrow> string" where
  "lower s = map lower_char s"

definition py_isspace :: "char \<Rightarrow> bool" where
  "py_isspace c = ((of_char c :: nat) \<in> {9, 10, 11, 12, 13, 28, 29, 30, 31, 32, 133, 160})"

definition strip :: "string \<Rightarrow> string" where
  "strip s = rev (dropWhile py_isspace (rev (dropWhile py_isspace s)))"

definition py_or :: "string \<Rightarrow> string \<Rightarrow> string" where
  "py_or a b = (if a \<noteq> [] then a else b)"

text \<open>
  \<open>os.path.splitext\<close> (posixpath): the extension starts at the last dot of the last path
  component, unless only dots stand before it in that component.
\<close>

definition splitext :: "string \<Rightarrow> string \<times> string" where
  "splitext p =
     (let base = rev (takeWhile (\<lambda>c. c \<noteq> CHR ''/'') (rev p));
          suffix = rev (takeWhile (\<lambda>c. c \<noteq> CHR ''.'') (rev base));
          front = dropWhile (\<lambda>c. c \<noteq> CHR ''.'') (rev base)
      in if front = [] then (p, [])
         else if list_all (\<lambda>c. c = CHR ''.'') (tl front) then (p, [])
         else (take (length p - Suc (length suffix)) p, CHR ''.'' # suffix))"

subsection \<open>parse_event\<close>

text \<open>
  Subscripting and \<open>dict.get\<close> on a value of unknown shape: \<open>v[k]\<close> with a string key,
  \<open>v[0]\<close>, and \<open>v.get(k, d)\<close>. A JSON object has string keys only, so \<open>v[0]\<close> on an object
  is a \<open>KeyError\<close>.
\<close>

fun subscript :: "json \<Rightarrow> string \<Rightarrow> exn + json" where
  "subscript (JObj kvs) k =
     (case map_of kvs k of None \<Rightarrow> Inl (KeyError (JStr k)) | Some v \<Rightarrow> Inr v)"
| "subscript v k = Inl TypeError"

fun subscript0 :: "json \<Rightarrow> exn + json" where
  "subscript0 (JList []) = Inl IndexError"
| "subscript0 (JList (x # xs)) = Inr x"
| "subscript0 (JStr []) = Inl IndexError"
| "subscript0 (JStr (c # cs)) = Inr (JStr [c])"
| "subscript0 (JObj kvs) = Inl (KeyError (JInt 0))"
| "subscript0 v = Inl TypeError"

fun dict_get :: "json \<Rightarrow> string \<Rightarrow> json \<Rightarrow> exn + json" where
  "dict_get (JObj kvs) k d = Inr (case map_of kvs k of None \<Rightarrow> d | Some v \<Rightarrow> v)"
| "dict_get v k d = Inl AttributeError"

text \<open>The event is a dict (the handler's annotation), given by its items.\<close>

type_synonym event = "(string \<times> json) list"

definition parse_event :: "event \<Rightarrow> exn + (json \<times> json \<times> json)" where
  "parse_event event =
     (if map_of event ''detail'' \<noteq> None then
        ebind (subscript (JObj event) ''detail'') (\<lambda>detail.
        ebind (subscript detail ''bucket'') (\<lambda>b.
        ebind (subscript b ''name'') (\<lambda>bucket.
        ebind (subscript detail ''object'') (\<lambda>ob.
        ebind (subscript ob ''key'') (\<lambda>key.
        ebind (subscript detail ''object'') (\<lambda>ob'.
        ebind (dict_get ob' ''size'' (JInt 0)) (\<lambda>size'.
        Inr (bucket, key, size'))))))))
      else if map_of event ''Records'' \<noteq> None then
        ebind (subscript (JObj event) ''Records'') (\<lambda>records.
        ebind (subscript0 records) (\<lambda>record.
        ebind (subscript record ''s3'') (\<lambda>s3.
        ebind (subscript s3 ''bucket'') (\<lambda>b.
        ebind (subscript b ''name'') (\<lambda>bucket.
        ebind (subscript record ''s3'') (\<lambda>s3'.
        ebind (subscript s3' ''object'') (\<lambda>ob.
        ebind (subscript ob ''key'') (\<lambda>key.
        ebind (subscript record ''s3'') (\<lambda>s3''.
        ebind (subscript s3'' ''object'') (\<lambda>ob'.
        ebind (dict_get ob' ''size'' (JInt 0)) (\<lambda>size'.
        Inr (bucket, key, size'))))))))))))
      else Inl (ValueError (JObj event)))"

subsection \<open>The world of one invocation\<close>

text \<open>
  A reading of \<open>datetime.utcnow()\<close>, by the two renderings the source takes of it:
  \<open>strftime('%Y/%m/%d')\<close> and \<open>isoformat()\<close>.
\<close>

record timestamp =
  strftime_Ymd :: string
  isoformat :: string

text \<open>What \<open>subprocess.run\<close> answers: a completed process (return code, captured standard
  output, captured standard error) or an exception, \<open>TimeoutExpired\<close> after the 300 seconds.\<close>

datatype run_outcome = Completed int string string | Raised exn

text \<open>The values of the alert payload and of the copy metadata: a string, a value taken
  from the event, or \<open>str(e)\<close> of an exception.\<close>

datatype aval = AStr string | AJson json | AErr exn

text \<open>
  The collaborators' answers. An S3 or SNS call answers \<open>None\<close> when it succeeds and the
  exception it raises otherwise. \<open>utcnow k\<close> is the \<open>k\<close>-th reading of the clock,
  \<open>str_other\<close> is \<open>str()\<close> on a value that is not a string (inside an f-string),
  \<open>tmp_path\<close> the name of the temporary file, and \<open>tmp_after_download\<close>,
  \<open>tmp_after_scan\<close> say whether that file is still in place after the step.
\<close>

record env =
  cfg :: config
  utcnow :: "nat \<Rightarrow> timestamp"
  str_other :: "json \<Rightarrow> string"
  tmp_path :: string
  download_file_outcome :: "exn option"
  tmp_after_download :: bool
  clamscan_exists :: bool
  subprocess_run_outcome :: run_outcome
  tmp_after_scan :: bool
  copy_object_outcome :: "exn option"
  delete_object_outcome :: "exn option"
  put_object_tagging_outcome :: "exn option"
  sns_publish_outcome :: "string \<Rightarrow> exn option"

datatype action =
    NamedTemporaryFile string
  | S3_download_file json json string
  | Subprocess_run "string list" nat
  | Os_unlink string
  | S3_copy_object json json string string "(string \<times> aval) list"
  | S3_delete_object json json
  | S3_put_object_tagging json json "(string \<times> string) list"
  | Sns_publish string string "(string \<times> aval) list"
  | Print_alert string "(string \<times> aval) list"

record world =
  trace :: "action list"
  ticks :: nat
  files :: "string set"

definition emit :: "action \<Rightarrow> world \<Rightarrow> world" where
  "emit a s = s\<lparr>trace := trace s @ [a]\<rparr>"

definition tick :: "world \<Rightarrow> world" where
  "tick s = s\<lparr>ticks := Suc (ticks s)\<rparr>"

definition utcnow_read :: "env \<Rightarrow> world \<Rightarrow> timestamp \<times> world" where
  "utcnow_read env s = (utcnow env (ticks s), tick s)"

definition py_str :: "env \<Rightarrow> json \<Rightarrow> string" where
  "py_str env v = (case v of JStr s \<Rightarrow> s | _ \<Rightarrow> str_other env v)"

text \<open>\<open>except ClientError\<close> around a call that returns nothing: the exception is swallowed
  when it is a \<open>ClientError\<close> and propagates otherwise.\<close>

definition except_ClientError_pass :: "exn option \<Rightarrow> exn + unit" where
  "except_ClientError_pass r =
     (case r of None \<Rightarrow> Inr () | Some e \<Rightarrow> if is_ClientError e then Inr () else Inl e)"

subsection \<open>send_alert and tag_object\<close>

definition send_alert :: "env \<Rightarrow> string \<Rightarrow> (string \<times> aval) list \<Rightarrow> world \<Rightarrow> (exn + unit) \<times> world" where
  "send_alert env alert_type data s =
     (if ALERT_TOPIC_ARN (cfg env) = [] then (Inr (), emit (Print_alert alert_type data) s)
      else
        let (now, s1) = utcnow_read env s;
            message = [(''type'', AStr alert_type), (''timestamp'', AStr (isoformat now))] @ data;
            s2 = emit (Sns_publish (ALERT_TOPIC_ARN (cfg env))
                         (''[SECURITY ALERT] '' @ alert_type) message) s1
        in (except_ClientError_pass (sns_publish_outcome env alert_type), s2))"

definition tag_object :: "env \<Rightarrow> json \<Rightarrow> json \<Rightarrow> string \<Rightarrow> string \<Rightarrow> world \<Rightarrow> (exn + unit) \<times> world" where
  "tag_object env bucket key status details s =
     (let (now, s1) = utcnow_read env s;
          tags = [(''virus-scan'', status), (''scan-date'', isoformat now)]
                 @ (if details \<noteq> [] then [(''scan-details'', take 256 details)] else []);
          s2 = emit (S3_put_object_tagging bucket key tags) s1
      in (except_ClientError_pass (put_object_tagging_outcome env), s2))"

subsection \<open>scan_file\<close>

record scan_result =
  infected :: bool
  details :: string

definition clamscan_argv :: "env \<Rightarrow> string list" where
  "clamscan_argv env =
     [CLAMSCAN_PATH (cfg env), ''--database='' @ CLAM_DB_PATH (cfg env),
      ''--no-summary'', ''--infected'', tmp_path env]"

definition external_step :: "env \<Rightarrow> bool \<Rightarrow> action \<Rightarrow> world \<Rightarrow> world" where
  "external_step env keeps a s =
     emit a (if keeps then s else s\<lparr>files := files s - {tmp_path env}\<rparr>)"

text \<open>The body of the \<open>try\<close> of \<open>scan_file\<close>.\<close>

definition scan_file_try :: "env \<Rightarrow> json \<Rightarrow> json \<Rightarrow> world \<Rightarrow> (exn + scan_result) \<times> world" where
  "scan_file_try env bucket key s =
     (let s1 = external_step env (tmp_after_download env)
                 (S3_download_file bucket key (tmp_path env)) s
      in case download_file_outcome env of
           Some e \<Rightarrow> (Inl e, s1)
         | None \<Rightarrow>
             if \<not> clamscan_exists env
             then (Inr \<lparr>infected = False, details = ''ClamAV not available''\<rparr>, s1)
             else
               let s2 = external_step env (tmp_after_scan env)
                          (Subprocess_run (clamscan_argv env) 300) s1
               in case subprocess_run_outcome env of
                    Raised e \<Rightarrow> (Inl e, s2)
                  | Completed returncode out err \<Rightarrow>
                      if returncode = 0
                      then (Inr \<lparr>infected = False, details = ''No threats detected''\<rparr>, s2)
                      else if returncode = 1
                      then (Inr \<lparr>infected = True, details = py_or (strip out) (strip err)\<rparr>, s2)
                      else (Inr \<lparr>infected = False,
                                 details = ''Scan error: '' @ py_or (strip err) (strip out)\<rparr>, s2))"

text \<open>The \<open>finally\<close> of \<open>scan_file\<close>.\<close>

definition scan_file_finally :: "env \<Rightarrow> world \<Rightarrow> world" where
  "scan_file_finally env s =
     (if tmp_path env \<in> files s
      then emit (Os_unlink (tmp_path env)) (s\<lparr>files := files s - {tmp_path env}\<rparr>)
      else s)"

definition scan_file :: "env \<Rightarrow> json \<Rightarrow> json \<Rightarrow> world \<Rightarrow> (exn + scan_result) \<times> world" where
  "scan_file env bucket key s =
     (let s0 = emit (NamedTemporaryFile (tmp_path env)) (s\<lparr>files := insert (tmp_path env) (files s)\<rparr>);
          (r, s1) = scan_file_try env bucket key s0
      in (r, scan_file_finally env s1))"

subsection \<open>handle_infected_file\<close>

text \<open>The body of the \<open>try\<close> of \<open>handle_infected_file\<close>.\<close>

definition handle_infected_file_try ::
  "env \<Rightarrow> json \<Rightarrow> json \<Rightarrow> scan_result \<Rightarrow> string \<Rightarrow> world \<Rightarrow> (exn + unit) \<times> world" where
  "handle_infected_file_try env bucket key sr quarantine_key s =
     (let (now, s1) = utcnow_read env s;
          metadata = [(''original-bucket'', AJson bucket),
                      (''original-key'', AJson key),
                      (''scan-result'', AStr (take 256 (details sr))),
                      (''quarantine-date'', AStr (isoformat now))];
          s2 = emit (S3_copy_object bucket key (QUARANTINE_BUCKET (cfg env)) quarantine_key metadata) s1
      in case copy_object_outcome env of
           Some e \<Rightarrow> (Inl e, s2)
         | None \<Rightarrow>
             let s3 = emit (S3_delete_object bucket key) s2
             in case delete_object_outcome env of
                  Some e \<Rightarrow> (Inl e, s3)
                | None \<Rightarrow>
                    send_alert env ''MALWARE_DETECTED''
                      [(''bucket'', AJson bucket),
                       (''key'', AJson key),
                       (''scan_result'', AStr (details sr)),
                       (''quarantine_location'',
                          AStr (''s3://'' @ QUARANTINE_BUCKET (cfg env) @ ''/'' @ quarantine_key)),
                       (''action'', AStr ''File quarantined and deleted from source'')] s3)"

definition handle_infected_file ::
  "env \<Rightarrow> json \<Rightarrow> json \<Rightarrow> scan_result \<Rightarrow> world \<Rightarrow> (exn + unit) \<times> world" where
  "handle_infected_file env bucket key sr s =
     (let (today, s1) = utcnow_read env s;
          quarantine_key = ''infected/'' @ strftime_Ymd today @ ''/'' @ py_str env bucket
                           @ ''/'' @ py_str env key
      in case handle_infected_file_try env bucket key sr quarantine_key s1 of
           (Inr u, s2) \<Rightarrow> (Inr u, s2)
         | (Inl e, s2) \<Rightarrow>
             if is_ClientError e then
               (case send_alert env ''QUARANTINE_FAILED''
                       [(''bucket'', AJson bucket),
                        (''key'', AJson key),
                        (''scan_result'', AStr (details sr)),
                        (''error'', AErr e)] s2 of
                  (Inl e', s3) \<Rightarrow> (Inl e', s3)
                | (Inr u, s3) \<Rightarrow> (Inl e, s3))
             else (Inl e, s2))"

subsection \<open>handler\<close>

record response =
  statusCode :: int
  body :: string

text \<open>\<open>size > MAX_FILE_SIZE\<close> and \<open>key.lower()\<close> on values of unknown shape.\<close>

fun py_gt :: "json \<Rightarrow> int \<Rightarrow> exn + bool" where
  "py_gt (JInt n) m = Inr (n > m)"
| "py_gt (JBool b) m = Inr ((if b then 1 else 0) > m)"
| "py_gt v m = Inl TypeError"

fun py_lower :: "json \<Rightarrow> exn + string" where
  "py_lower (JStr s) = Inr (lower s)"
| "py_lower v = Inl AttributeError"

definition returning :: "string \<Rightarrow> (exn + unit) \<times> world \<Rightarrow> (exn + response) \<times> world" where
  "returning b r =
     (case r of (Inl e, s) \<Rightarrow> (Inl e, s)
              | (Inr u, s) \<Rightarrow> (Inr \<lparr>statusCode = 200, body = b\<rparr>, s))"

text \<open>The body of the \<open>try\<close> of \<open>handler\<close>.\<close>

definition handler_try :: "env \<Rightarrow> event \<Rightarrow> world \<Rightarrow> (exn + response) \<times> world" where
  "handler_try env event s =
     (case parse_event event of
        Inl e \<Rightarrow> (Inl e, s)
      | Inr (bucket, key, size') \<Rightarrow>
          (case py_gt size' (MAX_FILE_SIZE (cfg env)) of
             Inl e \<Rightarrow> (Inl e, s)
           | Inr True \<Rightarrow>
               returning ''File too large - skipped''
                 (tag_object env bucket key ''skipped'' ''File too large'' s)
           | Inr False \<Rightarrow>
               (case py_lower key of
                  Inl e \<Rightarrow> (Inl e, s)
                | Inr lowered \<Rightarrow>
                    if snd (splitext lowered) \<in> SKIP_EXTENSIONS then
                      returning ''Media file - basic validation passed''
                        (tag_object env bucket key ''clean'' ''Media file - basic validation'' s)
                    else
                      (case scan_file env bucket key s of
                         (Inl e, s1) \<Rightarrow> (Inl e, s1)
                       | (Inr sr, s1) \<Rightarrow>
                           if infected sr then
                             returning ''Infected file quarantined''
                               (handle_infected_file env bucket key sr s1)
                           else
                             returning ''File scanned - clean''
                               (tag_object env bucket key ''clean'' [] s1)))))"

definition handler :: "env \<Rightarrow> event \<Rightarrow> world \<Rightarrow> (exn + response) \<times> world" where
  "handler env event s =
     (case handler_try env event s of
        (Inr r, s1) \<Rightarrow> (Inr r, s1)
      | (Inl e, s1) \<Rightarrow>
          (case send_alert env ''SCAN_ERROR''
                  [(''error'', AErr e), (''event'', AJson (JObj event))] s1 of
             (Inl e', s2) \<Rightarrow> (Inl e', s2)
           | (Inr u, s2) \<Rightarrow> (Inl e, s2)))"

subsection \<open>Vocabulary of the statements\<close>

text \<open>
  \<open>provider_error_only r\<close>: the S3 or SNS call succeeds, or fails with the provider's
  \<open>ClientError\<close>, the one exception class of the SDK that the source names.
\<close>

definition provider_error_only :: "exn option \<Rightarrow> bool" where
  "provider_error_only r = (case r of None \<Rightarrow> True | Some e \<Rightarrow> is_ClientError e)"

text \<open>An alert of the given type, published to the topic or written to the log.\<close>

fun is_alert :: "string \<Rightarrow> action \<Rightarrow> bool" where
  "is_alert t (Sns_publish arn subject message) = (map_of message ''type'' = Some (AStr t))"
| "is_alert t (Print_alert t' d) = (t' = t)"
| "is_alert t a = False"

fun is_delete :: "action \<Rightarrow> bool" where
  "is_delete (S3_delete_object b k) = True"
| "is_delete a = False"

fun is_engine_run :: "action \<Rightarrow> bool" where
  "is_engine_run (Subprocess_run argv timeout) = True"
| "is_engine_run a = False"


text \<open>The calls issued on the way from the world \<open>s\<close> to the world \<open>s'\<close>.\<close>

definition issued :: "world \<Rightarrow> world \<Rightarrow> action list" where
  "issued s s' = drop (length (trace s)) (trace s')"

text \<open>An S3 call names the object \<open>(b, k)\<close> as the object it reads, copies, deletes or
  tags; every other call is unconstrained.\<close>

fun addresses :: "json \<Rightarrow> json \<Rightarrow> action \<Rightarrow> bool" where
  "addresses b k (S3_download_file b' k' p) = (b' = b \<and> k' = k)"
| "addresses b k (S3_copy_object b' k' qb qk md) = (b' = b \<and> k' = k)"
| "addresses b k (S3_delete_object b' k') = (b' = b \<and> k' = k)"
| "addresses b k (S3_put_object_tagging b' k' tags) = (b' = b \<and> k' = k)"
| "addresses b k a = True"

text \<open>The world \<open>s'\<close> is reached from \<open>s\<close> by calls that name no object other than
  \<open>(b, k)\<close>.\<close>

definition grows :: "json \<Rightarrow> json \<Rightarrow> world \<Rightarrow> world \<Rightarrow> bool" where
  "grows b k s s' = (\<exists>xs. trace s' = trace s @ xs \<and> list_all (addresses b k) xs)"


subsection \<open>Concrete inputs\<close>

definition start :: world where
  "start = \<lparr>trace = [], ticks = 0, files = {}\<rparr>"

definition clock0 :: "nat \<Rightarrow> timestamp" where
  "clock0 k = \<lparr>strftime_Ymd = ''2026/01/02'', isoformat = ''2026-01-02T03:04:05''\<rparr>"

text \<open>An environment with the default configuration in which every collaborator succeeds
  and the engine reports a finding.\<close>

definition env0 :: env where
  "env0 = \<lparr> cfg = default_config, utcnow = clock0,
     str_other = (\<lambda>v. ''?''), tmp_path = ''/tmp/tmpabc'',
     download_file_outcome = None, tmp_after_download = True, clamscan_exists = True,
     subprocess_run_outcome = Completed 1 '' Eicar-Test-Signature FOUND '' [],
     tmp_after_scan = True, copy_object_outcome = None, delete_object_outcome = None,
     put_object_tagging_outcome = None, sns_publish_outcome = (\<lambda>t. None) \<rparr>"

text \<open>An EventBridge event for the object \<open>k\<close> of \<open>n\<close> bytes in the bucket \<open>uploads\<close>.\<close>

definition upload_event :: "string \<Rightarrow> int \<Rightarrow> event" where
  "upload_event k n =
     [(''detail'', JObj [(''bucket'', JObj [(''name'', JStr ''uploads'')]),
                         (''object'', JObj [(''key'', JStr k), (''size'', JInt n)])])]"

text \<open>The same environment without the \<open>clamscan\<close> executable, and with an engine
  that runs into the timeout.\<close>

definition env_no_engine :: env where
  "env_no_engine = env0\<lparr>clamscan_exists := False\<rparr>"

definition env_timeout :: env where
  "env_timeout = env0\<lparr>subprocess_run_outcome := Raised TimeoutExpired\<rparr>"

text \<open>The engine reports the finding on standard error; standard output is a newline.\<close>

definition env_stderr :: env where
  "env_stderr = env0\<lparr>subprocess_run_outcome :=
      Completed 1 ''\<newline>'' ''Eicar-Test-Signature FOUND\<newline>''\<rparr>"


text \<open>Environments in which one collaborator fails: the quarantine copy is refused by S3
  (a \<open>ClientError\<close>) or rejected by the SDK before it is sent (not a \<open>ClientError\<close>; with
  the default configuration the quarantine bucket name is empty); the tag write is refused
  by S3 while the engine finds nothing, or cannot reach S3 at all.\<close>

definition env_copy_denied :: env where
  "env_copy_denied = env0\<lparr>copy_object_outcome := Some (ClientError ''AccessDenied'')\<rparr>"

definition env_copy_invalid :: env where
  "env_copy_invalid = env0\<lparr>copy_object_outcome := Some (OtherError ''ParamValidationError'')\<rparr>"

definition env_tag_denied :: env where
  "env_tag_denied = env0\<lparr>put_object_tagging_outcome := Some (ClientError ''AccessDenied''),
                          subprocess_run_outcome := Completed 0 [] []\<rparr>"

definition env_tag_unreachable :: env where
  "env_tag_unreachable = env0\<lparr>put_object_tagging_outcome := Some (OtherError ''EndpointConnectionError'')\<rparr>"

text \<open>A direct S3 notification with the given records, and a record for an object.\<close>

definition records_event :: "json list \<Rightarrow> event" where
  "records_event rs = [(''Records'', JList rs)]"

definition s3_record :: "string \<Rightarrow> string \<Rightarrow> json" where
  "s3_record b k =
     JObj [(''s3'', JObj [(''bucket'', JObj [(''name'', JStr b)]),
                          (''object'', JObj [(''key'', JStr k)])])]"

section \<open>Properties\<close>

subsection \<open>Auxiliary facts\<close>

lemma except_ClientError_pass_ok:
  "provider_error_only r \<Longrightarrow> except_ClientError_pass r = Inr ()"
  by (auto simp: provider_error_only_def except_ClientError_pass_def split: option.splits)

lemma tag_object_ok:
  "provider_error_only (put_object_tagging_outcome env) \<Longrightarrow>
   tag_object env bucket key status dt s =
     (Inr (), emit (S3_put_object_tagging bucket key
        ([(''virus-scan'', status), (''scan-date'', isoformat (utcnow env (ticks s)))]
          @ (if dt \<noteq> [] then [(''scan-details'', take 256 dt)] else []))) (tick s))"
  by (simp add: tag_object_def utcnow_read_def except_ClientError_pass_ok)

lemma send_alert_ok:
  "provider_error_only (sns_publish_outcome env t) \<Longrightarrow>
   send_alert env t data s =
     (Inr (), if ALERT_TOPIC_ARN (cfg env) = [] then emit (Print_alert t data) s
              else emit (Sns_publish (ALERT_TOPIC_ARN (cfg env)) (''[SECURITY ALERT] '' @ t)
                     ([(''type'', AStr t), (''timestamp'', AStr (isoformat (utcnow env (ticks s))))] @ data))
                   (tick s))"
  by (simp add: send_alert_def utcnow_read_def except_ClientError_pass_ok)

lemma parse_upload_event:
  "parse_event (upload_event k n) = Inr (JStr ''uploads'', JStr k, JInt n)"
  by (simp add: upload_event_def parse_event_def ebind_def)

lemma MAX_FILE_SIZE_env0: "MAX_FILE_SIZE (cfg env0) = 524288000"
  by (simp add: env0_def default_config_def MAX_FILE_SIZE_def)

lemma tagging_env0: "provider_error_only (put_object_tagging_outcome env0)"
  by (simp add: env0_def provider_error_only_def)

lemma publish_env0: "provider_error_only (sns_publish_outcome env0 t)"
  by (simp add: env0_def provider_error_only_def)

subsection \<open>The size gate\<close>



subsection \<open>The media allow-list\<close>


lemma ext_IMG: "snd (splitext (lower ''photos/2026/IMG_0001.JPeG'')) = ''.jpeg''"
  by code_simp


subsection \<open>Unrecognised events\<close>



subsection \<open>Facts about scan_file\<close>

lemma scan_file_split:
  "scan_file env bucket key s =
     (fst (scan_file_try env bucket key
             (emit (NamedTemporaryFile (tmp_path env)) (s\<lparr>files := insert (tmp_path env) (files s)\<rparr>))),
      scan_file_finally env (snd (scan_file_try env bucket key
             (emit (NamedTemporaryFile (tmp_path env)) (s\<lparr>files := insert (tmp_path env) (files s)\<rparr>)))))"
  by (simp add: scan_file_def Let_def case_prod_beta)

lemma scan_file_finally_files: "tmp_path env \<notin> files (scan_file_finally env s)"
  by (simp add: scan_file_finally_def emit_def)

lemma scan_file_finally_trace:
  "trace (scan_file_finally env s) =
     trace s @ (if tmp_path env \<in> files s then [Os_unlink (tmp_path env)] else [])"
  by (simp add: scan_file_finally_def emit_def)

lemma scan_file_finally_ticks: "ticks (scan_file_finally env s) = ticks s"
  by (simp add: scan_file_finally_def emit_def)

lemma external_step_ticks: "ticks (external_step env keeps a s) = ticks s"
  by (simp add: external_step_def emit_def)

lemma scan_file_try_ticks: "ticks (snd (scan_file_try env bucket key s)) = ticks s"
  by (simp add: scan_file_try_def external_step_ticks Let_def
      split: option.splits run_outcome.splits)

lemma scan_file_ticks: "ticks (snd (scan_file env bucket key s)) = ticks s"
  by (simp add: scan_file_split scan_file_finally_ticks scan_file_try_ticks emit_def)

lemma scan_file_try_result:
  "fst (scan_file_try env bucket key s) =
     (case download_file_outcome env of
        Some e \<Rightarrow> Inl e
      | None \<Rightarrow>
          if \<not> clamscan_exists env
          then Inr \<lparr>infected = False, details = ''ClamAV not available''\<rparr>
          else (case subprocess_run_outcome env of
                  Raised e \<Rightarrow> Inl e
                | Completed returncode out err \<Rightarrow>
                    if returncode = 0
                    then Inr \<lparr>infected = False, details = ''No threats detected''\<rparr>
                    else if returncode = 1
                    then Inr \<lparr>infected = True, details = py_or (strip out) (strip err)\<rparr>
                    else Inr \<lparr>infected = False,
                              details = ''Scan error: '' @ py_or (strip err) (strip out)\<rparr>))"
  by (simp add: scan_file_try_def Let_def split: option.splits run_outcome.splits)

lemma scan_file_result: "fst (scan_file env bucket key s) = fst (scan_file_try env bucket key s')"
  by (simp add: scan_file_split scan_file_try_result)

lemma scan_file_no_engine:
  assumes "download_file_outcome env = None" and "\<not> clamscan_exists env"
  shows "scan_file env bucket key s =
     (Inr \<lparr>infected = False, details = ''ClamAV not available''\<rparr>,
      scan_file_finally env
        (external_step env (tmp_after_download env) (S3_download_file bucket key (tmp_path env))
          (emit (NamedTemporaryFile (tmp_path env)) (s\<lparr>files := insert (tmp_path env) (files s)\<rparr>))))"
  using assms by (simp add: scan_file_split scan_file_try_def Let_def)

lemma scan_file_run:
  assumes "download_file_outcome env = None" and "clamscan_exists env"
  shows "scan_file env bucket key s =
     (case subprocess_run_outcome env of
        Raised e \<Rightarrow> Inl e
      | Completed returncode out err \<Rightarrow>
          if returncode = 0 then Inr \<lparr>infected = False, details = ''No threats detected''\<rparr>
          else if returncode = 1 then Inr \<lparr>infected = True, details = py_or (strip out) (strip err)\<rparr>
          else Inr \<lparr>infected = False, details = ''Scan error: '' @ py_or (strip err) (strip out)\<rparr>,
      scan_file_finally env
        (external_step env (tmp_after_scan env) (Subprocess_run (clamscan_argv env) 300)
        (external_step env (tmp_after_download env) (S3_download_file bucket key (tmp_path env))
          (emit (NamedTemporaryFile (tmp_path env)) (s\<lparr>files := insert (tmp_path env) (files s)\<rparr>)))))"
  using assms
  by (simp add: scan_file_split scan_file_try_def Let_def split: run_outcome.splits)

lemma scan_file_run_trace:
  assumes "download_file_outcome env = None" and "clamscan_exists env"
  shows "trace (snd (scan_file env bucket key s)) =
     trace s @ [NamedTemporaryFile (tmp_path env), S3_download_file bucket key (tmp_path env),
                Subprocess_run (clamscan_argv env) 300]
       @ (if tmp_after_download env \<and> tmp_after_scan env then [Os_unlink (tmp_path env)] else [])"
  using assms
  by (simp add: scan_file_run scan_file_finally_trace external_step_def emit_def)

lemma scan_file_no_engine_trace:
  assumes "download_file_outcome env = None" and "\<not> clamscan_exists env"
  shows "trace (snd (scan_file env bucket key s)) =
     trace s @ [NamedTemporaryFile (tmp_path env), S3_download_file bucket key (tmp_path env)]
       @ (if tmp_after_download env then [Os_unlink (tmp_path env)] else [])"
  using assms
  by (simp add: scan_file_no_engine scan_file_finally_trace external_step_def emit_def)

lemma handler_try_scan:
  assumes "parse_event event = Inr (bucket, key, size')"
    and "py_gt size' (MAX_FILE_SIZE (cfg env)) = Inr False"
    and "py_lower key = Inr lowered"
    and "snd (splitext lowered) \<notin> SKIP_EXTENSIONS"
  shows "handler_try env event s =
     (case scan_file env bucket key s of
        (Inl e, s1) \<Rightarrow> (Inl e, s1)
      | (Inr sr, s1) \<Rightarrow>
          if infected sr then
            returning ''Infected file quarantined'' (handle_infected_file env bucket key sr s1)
          else
            returning ''File scanned - clean'' (tag_object env bucket key ''clean'' [] s1))"
  using assms by (simp add: handler_try_def)

lemma ext_report: "snd (splitext (lower ''docs/Report.PDF'')) = ''.pdf''"
  by code_simp

lemma ext_report_scanned: "snd (splitext (lower ''docs/Report.PDF'')) \<notin> SKIP_EXTENSIONS"
  by (simp add: ext_report SKIP_EXTENSIONS_def)

lemma size_1024_env0: "py_gt (JInt 1024) (MAX_FILE_SIZE (cfg env0)) = Inr False"
  by (simp add: MAX_FILE_SIZE_env0)

subsection \<open>Cleanup of the temporary file\<close>

text \<open>
  C7. Whatever the download and the engine do (success, any exception, the timeout, any
  return code), the temporary file does not exist when \<open>scan_file\<close> returns or raises.
  The \<open>finally\<close> clause passes on the result or the exception of the \<open>try\<close> unchanged,
  issues \<open>os.unlink\<close> exactly when the file is still in place, and the outcome does not
  depend on whether the file was still in place.
\<close>

theorem scan_file_cleanup:
  "tmp_path env \<notin> files (snd (scan_file env bucket key s))
   \<and> fst (scan_file env bucket key s) =
       fst (scan_file_try env bucket key
             (emit (NamedTemporaryFile (tmp_path env)) (s\<lparr>files := insert (tmp_path env) (files s)\<rparr>)))
   \<and> trace (snd (scan_file env bucket key s)) =
       trace (snd (scan_file_try env bucket key
             (emit (NamedTemporaryFile (tmp_path env)) (s\<lparr>files := insert (tmp_path env) (files s)\<rparr>))))
       @ (if tmp_path env \<in> files (snd (scan_file_try env bucket key
             (emit (NamedTemporaryFile (tmp_path env)) (s\<lparr>files := insert (tmp_path env) (files s)\<rparr>))))
          then [Os_unlink (tmp_path env)] else [])
   \<and> fst (scan_file (env\<lparr>tmp_after_download := a, tmp_after_scan := b\<rparr>) bucket key s) =
       fst (scan_file env bucket key s)"
proof -
  have "tmp_path env \<notin> files (snd (scan_file env bucket key s))"
    by (simp add: scan_file_split scan_file_finally_files)
  moreover have "fst (scan_file env bucket key s) =
       fst (scan_file_try env bucket key
             (emit (NamedTemporaryFile (tmp_path env)) (s\<lparr>files := insert (tmp_path env) (files s)\<rparr>)))"
    by (rule scan_file_result)
  moreover have "trace (snd (scan_file env bucket key s)) =
       trace (snd (scan_file_try env bucket key
             (emit (NamedTemporaryFile (tmp_path env)) (s\<lparr>files := insert (tmp_path env) (files s)\<rparr>))))
       @ (if tmp_path env \<in> files (snd (scan_file_try env bucket key
             (emit (NamedTemporaryFile (tmp_path env)) (s\<lparr>files := insert (tmp_path env) (files s)\<rparr>))))
          then [Os_unlink (tmp_path env)] else [])"
    by (simp only: scan_file_split snd_conv scan_file_finally_trace)
  moreover have "fst (scan_file (env\<lparr>tmp_after_download := a, tmp_after_scan := b\<rparr>) bucket key s) =
       fst (scan_file env bucket key s)"
    by (simp add: scan_file_split scan_file_try_result split: option.splits)
  ultimately show ?thesis by blast
qed

theorem scan_file_cleanup_witness:
  "tmp_path env_timeout \<notin> files (snd (scan_file env_timeout (JStr ''uploads'') (JStr ''docs/Report.PDF'') start))
   \<and> fst (scan_file env_timeout (JStr ''uploads'') (JStr ''docs/Report.PDF'') start) = Inl TimeoutExpired
   \<and> trace (snd (scan_file env_timeout (JStr ''uploads'') (JStr ''docs/Report.PDF'') start)) =
       [NamedTemporaryFile ''/tmp/tmpabc'',
        S3_download_file (JStr ''uploads'') (JStr ''docs/Report.PDF'') ''/tmp/tmpabc'',
        Subprocess_run [''/opt/clamav/bin/clamscan'', ''--database=/opt/clamav/share/clamav'',
                        ''--no-summary'', ''--infected'', ''/tmp/tmpabc''] 300,
        Os_unlink ''/tmp/tmpabc'']"
  using scan_file_cleanup [of env_timeout "JStr ''uploads''" "JStr ''docs/Report.PDF''" start True True]
  by (simp add: env_timeout_def env0_def start_def default_config_def scan_file_try_def
      external_step_def emit_def clamscan_argv_def)

subsection \<open>The engine is not installed\<close>

text \<open>
  C8. When the object has been fetched and \<open>clamscan\<close> does not exist at its configured
  path, \<open>scan_file\<close> returns \<open>infected = False\<close> with the details
  \<open>ClamAV not available\<close>, the engine is not run, the object is tagged \<open>clean\<close>, and the
  handler returns status 200 with the body \<open>File scanned - clean\<close>. The tag write is taken
  to succeed or to fail with a \<open>ClientError\<close>.
\<close>

theorem handler_engine_missing:
  assumes "parse_event event = Inr (bucket, key, size')"
    and "py_gt size' (MAX_FILE_SIZE (cfg env)) = Inr False"
    and "py_lower key = Inr lowered"
    and "snd (splitext lowered) \<notin> SKIP_EXTENSIONS"
    and "download_file_outcome env = None"
    and "\<not> clamscan_exists env"
    and "provider_error_only (put_object_tagging_outcome env)"
  shows "fst (scan_file env bucket key s) = Inr \<lparr>infected = False, details = ''ClamAV not available''\<rparr>
     \<and> fst (handler env event s) = Inr \<lparr>statusCode = 200, body = ''File scanned - clean''\<rparr>
     \<and> trace (snd (handler env event s)) =
         trace s @ [NamedTemporaryFile (tmp_path env), S3_download_file bucket key (tmp_path env)]
           @ (if tmp_after_download env then [Os_unlink (tmp_path env)] else [])
           @ [S3_put_object_tagging bucket key
                [(''virus-scan'', ''clean''), (''scan-date'', isoformat (utcnow env (ticks s)))]]
     \<and> \<not> list_ex is_engine_run (issued s (snd (handler env event s)))"
proof -
  obtain s1 where sf: "scan_file env bucket key s =
      (Inr \<lparr>infected = False, details = ''ClamAV not available''\<rparr>, s1)"
    using scan_file_no_engine [OF assms(5,6)] by simp
  have tr: "trace s1 = trace s @ [NamedTemporaryFile (tmp_path env), S3_download_file bucket key (tmp_path env)]
       @ (if tmp_after_download env then [Os_unlink (tmp_path env)] else [])"
    using scan_file_no_engine_trace [OF assms(5,6), of bucket key s] by (simp add: sf)
  have tk: "ticks s1 = ticks s"
    using scan_file_ticks [of env bucket key s] by (simp add: sf)
  have h: "handler_try env event s =
     (Inr \<lparr>statusCode = 200, body = ''File scanned - clean''\<rparr>,
      emit (S3_put_object_tagging bucket key
              [(''virus-scan'', ''clean''), (''scan-date'', isoformat (utcnow env (ticks s)))]) (tick s1))"
    using assms(7) tk
    by (simp add: handler_try_scan [OF assms(1-4)] sf returning_def tag_object_ok)
  show ?thesis
    using tr by (simp add: handler_def h sf emit_def tick_def issued_def)
qed

theorem handler_engine_missing_witness:
  "fst (scan_file env_no_engine (JStr ''uploads'') (JStr ''docs/Report.PDF'') start) =
       Inr \<lparr>infected = False, details = ''ClamAV not available''\<rparr>
     \<and> fst (handler env_no_engine (upload_event ''docs/Report.PDF'' 1024) start) =
         Inr \<lparr>statusCode = 200, body = ''File scanned - clean''\<rparr>
     \<and> trace (snd (handler env_no_engine (upload_event ''docs/Report.PDF'' 1024) start)) =
         [NamedTemporaryFile ''/tmp/tmpabc'',
          S3_download_file (JStr ''uploads'') (JStr ''docs/Report.PDF'') ''/tmp/tmpabc'',
          Os_unlink ''/tmp/tmpabc'',
          S3_put_object_tagging (JStr ''uploads'') (JStr ''docs/Report.PDF'')
            [(''virus-scan'', ''clean''), (''scan-date'', ''2026-01-02T03:04:05'')]]
     \<and> \<not> list_ex is_engine_run
           (issued start (snd (handler env_no_engine (upload_event ''docs/Report.PDF'' 1024) start)))"
proof -
  have g: "py_gt (JInt 1024) (MAX_FILE_SIZE (cfg env_no_engine)) = Inr False"
    using size_1024_env0 by (simp add: env_no_engine_def)
  have l: "py_lower (JStr ''docs/Report.PDF'') = Inr (lower ''docs/Report.PDF'')" by simp
  have d: "download_file_outcome env_no_engine = None"
    by (simp add: env_no_engine_def env0_def)
  have c: "\<not> clamscan_exists env_no_engine" by (simp add: env_no_engine_def)
  have t: "provider_error_only (put_object_tagging_outcome env_no_engine)"
    using tagging_env0 by (simp add: env_no_engine_def)
  show ?thesis
    using handler_engine_missing [OF parse_upload_event g l ext_report_scanned d c t, of start]
    by (simp add: env_no_engine_def env0_def start_def clock0_def)
qed

subsection \<open>Facts about the handler and the quarantine\<close>

lemma handler_raises:
  assumes "handler_try env event s = (Inl e, s1)"
    and "provider_error_only (sns_publish_outcome env ''SCAN_ERROR'')"
  shows "fst (handler env event s) = Inl e"
    and "trace (snd (handler env event s)) =
           trace s1 @ [if ALERT_TOPIC_ARN (cfg env) = []
             then Print_alert ''SCAN_ERROR'' [(''error'', AErr e), (''event'', AJson (JObj event))]
             else Sns_publish (ALERT_TOPIC_ARN (cfg env)) ''[SECURITY ALERT] SCAN_ERROR''
                    [(''type'', AStr ''SCAN_ERROR''),
                     (''timestamp'', AStr (isoformat (utcnow env (ticks s1)))),
                     (''error'', AErr e), (''event'', AJson (JObj event))]]"
  using assms by (simp_all add: handler_def send_alert_ok emit_def tick_def)

lemma handler_returns:
  assumes "handler_try env event s = (Inr r, s1)"
  shows "handler env event s = (Inr r, s1)"
  using assms by (simp add: handler_def)

lemma scan_file_error_exit:
  assumes "download_file_outcome env = None" and "clamscan_exists env"
    and "subprocess_run_outcome env = Completed returncode out err"
    and "returncode \<noteq> 0" and "returncode \<noteq> 1"
  shows "fst (scan_file env bucket key s) =
     Inr \<lparr>infected = False, details = ''Scan error: '' @ py_or (strip err) (strip out)\<rparr>"
  using assms by (simp add: scan_file_run)

lemma handle_infected_file_ok:
  assumes "copy_object_outcome env = None"
    and "delete_object_outcome env = None"
    and "provider_error_only (sns_publish_outcome env ''MALWARE_DETECTED'')"
  shows "fst (handle_infected_file env bucket key sr s) = Inr ()"
    and "trace (snd (handle_infected_file env bucket key sr s)) =
      trace s @
      [S3_copy_object bucket key (QUARANTINE_BUCKET (cfg env))
         (''infected/'' @ strftime_Ymd (utcnow env (ticks s)) @ ''/'' @ py_str env bucket
            @ ''/'' @ py_str env key)
         [(''original-bucket'', AJson bucket),
          (''original-key'', AJson key),
          (''scan-result'', AStr (take 256 (details sr))),
          (''quarantine-date'', AStr (isoformat (utcnow env (Suc (ticks s)))))],
       S3_delete_object bucket key,
       if ALERT_TOPIC_ARN (cfg env) = []
       then Print_alert ''MALWARE_DETECTED''
              [(''bucket'', AJson bucket), (''key'', AJson key),
               (''scan_result'', AStr (details sr)),
               (''quarantine_location'',
                  AStr (''s3://'' @ QUARANTINE_BUCKET (cfg env) @ ''/'' @ ''infected/''
                    @ strftime_Ymd (utcnow env (ticks s)) @ ''/'' @ py_str env bucket
                    @ ''/'' @ py_str env key)),
               (''action'', AStr ''File quarantined and deleted from source'')]
       else Sns_publish (ALERT_TOPIC_ARN (cfg env)) ''[SECURITY ALERT] MALWARE_DETECTED''
              [(''type'', AStr ''MALWARE_DETECTED''),
               (''timestamp'', AStr (isoformat (utcnow env (Suc (Suc (ticks s)))))),
               (''bucket'', AJson bucket), (''key'', AJson key),
               (''scan_result'', AStr (details sr)),
               (''quarantine_location'',
                  AStr (''s3://'' @ QUARANTINE_BUCKET (cfg env) @ ''/'' @ ''infected/''
                    @ strftime_Ymd (utcnow env (ticks s)) @ ''/'' @ py_str env bucket
                    @ ''/'' @ py_str env key)),
               (''action'', AStr ''File quarantined and deleted from source'')]]"
  using assms
  by (simp_all add: handle_infected_file_def handle_infected_file_try_def utcnow_read_def
      send_alert_ok emit_def tick_def Let_def)

lemma scan_file_trace_no_alert:
  "list_ex (is_alert t) (trace (snd (scan_file env bucket key s))) = list_ex (is_alert t) (trace s)"
  by (simp add: scan_file_split scan_file_finally_trace scan_file_try_def external_step_def
      emit_def Let_def split: option.splits run_outcome.splits)

lemma scan_file_trace_no_delete:
  "list_ex is_delete (trace (snd (scan_file env bucket key s))) = list_ex is_delete (trace s)"
  by (simp add: scan_file_split scan_file_finally_trace scan_file_try_def external_step_def
      emit_def Let_def split: option.splits run_outcome.splits)

lemma handle_infected_file_copy_fails:
  assumes "copy_object_outcome env = Some e"
    and "provider_error_only (sns_publish_outcome env ''QUARANTINE_FAILED'')"
  shows "fst (handle_infected_file env bucket key sr s) = Inl e"
    and "\<not> list_ex is_delete (trace s) \<Longrightarrow>
         \<not> list_ex is_delete (trace (snd (handle_infected_file env bucket key sr s)))"
    and "\<not> list_ex (is_alert ''QUARANTINE_FAILED'') (trace s) \<Longrightarrow>
         list_ex (is_alert ''QUARANTINE_FAILED'') (trace (snd (handle_infected_file env bucket key sr s)))
           = is_ClientError e"
    and "list_ex (is_alert ''SCAN_ERROR'') (trace (snd (handle_infected_file env bucket key sr s)))
           = list_ex (is_alert ''SCAN_ERROR'') (trace s)"
    and "list_ex (is_alert ''MALWARE_DETECTED'') (trace (snd (handle_infected_file env bucket key sr s)))
           = list_ex (is_alert ''MALWARE_DETECTED'') (trace s)"
  using assms
  by (simp_all add: handle_infected_file_def handle_infected_file_try_def utcnow_read_def
      send_alert_ok emit_def tick_def Let_def)

subsection \<open>Engine errors and the timeout\<close>

text \<open>
  C1. A completed run of the engine with a return code other than 0 and 1 gives
  \<open>infected = False\<close> with the details \<open>Scan error: \<close> followed by the stripped error
  text (\<open>scan_file_error_exit\<close>). The timeout does not: \<open>subprocess.run\<close> raises
  \<open>TimeoutExpired\<close>, \<open>scan_file\<close> has no \<open>except\<close> clause, so the exception leaves
  \<open>scan_file\<close>, the handler emits a \<open>SCAN_ERROR\<close> alert and re-raises it to its caller.
\<close>

theorem scan_file_timeout_escalates:
  assumes "parse_event event = Inr (bucket, key, size')"
    and "py_gt size' (MAX_FILE_SIZE (cfg env)) = Inr False"
    and "py_lower key = Inr lowered"
    and "snd (splitext lowered) \<notin> SKIP_EXTENSIONS"
    and "download_file_outcome env = None"
    and "clamscan_exists env"
    and "subprocess_run_outcome env = Raised TimeoutExpired"
    and "provider_error_only (sns_publish_outcome env ''SCAN_ERROR'')"
  shows "fst (scan_file env bucket key s) = Inl TimeoutExpired
     \<and> fst (handler env event s) = Inl TimeoutExpired
     \<and> list_ex (is_alert ''SCAN_ERROR'') (trace (snd (handler env event s)))"
proof -
  obtain s1 where sf: "scan_file env bucket key s = (Inl TimeoutExpired, s1)"
    using scan_file_run [OF assms(5,6)] assms(7) by simp
  have h: "handler_try env event s = (Inl TimeoutExpired, s1)"
    by (simp add: handler_try_scan [OF assms(1-4)] sf)
  show ?thesis
    by (simp add: sf handler_raises [OF h assms(8)])
qed

theorem scan_file_timeout_escalates_witness:
  "fst (scan_file env_timeout (JStr ''uploads'') (JStr ''docs/Report.PDF'') start) = Inl TimeoutExpired
     \<and> fst (handler env_timeout (upload_event ''docs/Report.PDF'' 1024) start) = Inl TimeoutExpired
     \<and> list_ex (is_alert ''SCAN_ERROR'')
         (trace (snd (handler env_timeout (upload_event ''docs/Report.PDF'' 1024) start)))"
proof -
  have g: "py_gt (JInt 1024) (MAX_FILE_SIZE (cfg env_timeout)) = Inr False"
    using size_1024_env0 by (simp add: env_timeout_def)
  have l: "py_lower (JStr ''docs/Report.PDF'') = Inr (lower ''docs/Report.PDF'')" by simp
  have d: "download_file_outcome env_timeout = None"
    by (simp add: env_timeout_def env0_def)
  have c: "clamscan_exists env_timeout" by (simp add: env_timeout_def env0_def)
  have r: "subprocess_run_outcome env_timeout = Raised TimeoutExpired"
    by (simp add: env_timeout_def)
  have p: "provider_error_only (sns_publish_outcome env_timeout ''SCAN_ERROR'')"
    using publish_env0 [of "''SCAN_ERROR''"] by (simp add: env_timeout_def)
  show ?thesis
    by (rule scan_file_timeout_escalates [OF parse_upload_event g l ext_report_scanned d c r p])
qed

subsection \<open>Quarantine of an infected object\<close>

text \<open>
  C6. When the engine exits with return code 1, the scan result is infected and its details
  are the stripped standard output when that is not empty, and the stripped standard error
  otherwise.
  The handler then copies the object to the quarantine bucket under the key
  \<open>infected/<year>/<month>/<day>/<bucket>/<key>\<close> of the current date, with the metadata
  \<open>original-bucket\<close>, \<open>original-key\<close>, \<open>scan-result\<close> (the first 256 characters of the
  details) and \<open>quarantine-date\<close>; deletes the original; emits a \<open>MALWARE_DETECTED\<close>
  alert that carries the quarantine location; and returns status 200. The download, the
  copy and the delete are taken to succeed, and the publication of the alert to succeed or to
  fail with a \<open>ClientError\<close>.
\<close>

theorem handler_quarantines_infected:
  assumes "parse_event event = Inr (bucket, JStr k, size')"
    and "py_gt size' (MAX_FILE_SIZE (cfg env)) = Inr False"
    and "snd (splitext (lower k)) \<notin> SKIP_EXTENSIONS"
    and "download_file_outcome env = None"
    and "clamscan_exists env"
    and "subprocess_run_outcome env = Completed 1 out err"
    and "copy_object_outcome env = None"
    and "delete_object_outcome env = None"
    and "provider_error_only (sns_publish_outcome env ''MALWARE_DETECTED'')"
  shows "fst (scan_file env bucket (JStr k) s) =
           Inr \<lparr>infected = True, details = (if strip out \<noteq> [] then strip out else strip err)\<rparr>
     \<and> fst (handler env event s) = Inr \<lparr>statusCode = 200, body = ''Infected file quarantined''\<rparr>
     \<and> trace (snd (handler env event s)) =
         trace (snd (scan_file env bucket (JStr k) s)) @
         [S3_copy_object bucket (JStr k) (QUARANTINE_BUCKET (cfg env))
            (''infected/'' @ strftime_Ymd (utcnow env (ticks s)) @ ''/'' @ py_str env bucket
               @ ''/'' @ k)
            [(''original-bucket'', AJson bucket),
             (''original-key'', AJson (JStr k)),
             (''scan-result'', AStr (take 256 ((if strip out \<noteq> [] then strip out else strip err)))),
             (''quarantine-date'', AStr (isoformat (utcnow env (Suc (ticks s)))))],
          S3_delete_object bucket (JStr k),
          if ALERT_TOPIC_ARN (cfg env) = []
          then Print_alert ''MALWARE_DETECTED''
                 [(''bucket'', AJson bucket), (''key'', AJson (JStr k)),
                  (''scan_result'', AStr ((if strip out \<noteq> [] then strip out else strip err))),
                  (''quarantine_location'',
                     AStr (''s3://'' @ QUARANTINE_BUCKET (cfg env) @ ''/'' @ ''infected/''
                       @ strftime_Ymd (utcnow env (ticks s)) @ ''/'' @ py_str env bucket
                       @ ''/'' @ k)),
                  (''action'', AStr ''File quarantined and deleted from source'')]
          else Sns_publish (ALERT_TOPIC_ARN (cfg env)) ''[SECURITY ALERT] MALWARE_DETECTED''
                 [(''type'', AStr ''MALWARE_DETECTED''),
                  (''timestamp'', AStr (isoformat (utcnow env (Suc (Suc (ticks s)))))),
                  (''bucket'', AJson bucket), (''key'', AJson (JStr k)),
                  (''scan_result'', AStr ((if strip out \<noteq> [] then strip out else strip err))),
                  (''quarantine_location'',
                     AStr (''s3://'' @ QUARANTINE_BUCKET (cfg env) @ ''/'' @ ''infected/''
                       @ strftime_Ymd (utcnow env (ticks s)) @ ''/'' @ py_str env bucket
                       @ ''/'' @ k)),
                  (''action'', AStr ''File quarantined and deleted from source'')]]"
proof -
  let ?sr = "\<lparr>infected = True, details = (if strip out \<noteq> [] then strip out else strip err)\<rparr>"
  obtain s1 where sf: "scan_file env bucket (JStr k) s = (Inr ?sr, s1)"
    using scan_file_run [OF assms(4,5)] assms(6) by (simp add: py_or_def)
  have tk: "ticks s1 = ticks s"
    using scan_file_ticks [of env bucket "JStr k" s] by (simp add: sf)
  have l: "py_lower (JStr k) = Inr (lower k)" by simp
  obtain s2 where hi: "handle_infected_file env bucket (JStr k) ?sr s1 = (Inr (), s2)"
    using handle_infected_file_ok(1) [OF assms(7-9), of bucket "JStr k" ?sr s1]
    by (cases "handle_infected_file env bucket (JStr k) ?sr s1") simp
  have h: "handler_try env event s =
      (Inr \<lparr>statusCode = 200, body = ''Infected file quarantined''\<rparr>, s2)"
    by (simp add: handler_try_scan [OF assms(1,2) l assms(3)] sf hi returning_def)
  have tr: "trace s2 = trace (snd (handle_infected_file env bucket (JStr k) ?sr s1))"
    by (simp add: hi)
  show ?thesis
    by (simp add: sf handler_returns [OF h] tr handle_infected_file_ok(2) [OF assms(7-9)] tk
        py_str_def)
qed

lemma strip_stdout_finding:
  "strip '' Eicar-Test-Signature FOUND '' = ''Eicar-Test-Signature FOUND''"
  by code_simp

lemma strip_newline: "strip ''\<newline>'' = []"
  by code_simp

lemma strip_stderr_finding:
  "strip ''Eicar-Test-Signature FOUND\<newline>'' = ''Eicar-Test-Signature FOUND''"
  by code_simp

theorem handler_quarantines_infected_witness:
  "fst (scan_file env0 (JStr ''uploads'') (JStr ''docs/Report.PDF'') start) =
       Inr \<lparr>infected = True, details = ''Eicar-Test-Signature FOUND''\<rparr>
   \<and> fst (handler env0 (upload_event ''docs/Report.PDF'' 1024) start) =
       Inr \<lparr>statusCode = 200, body = ''Infected file quarantined''\<rparr>
   \<and> trace (snd (handler env0 (upload_event ''docs/Report.PDF'' 1024) start)) =
       trace (snd (scan_file env0 (JStr ''uploads'') (JStr ''docs/Report.PDF'') start)) @
       [S3_copy_object (JStr ''uploads'') (JStr ''docs/Report.PDF'') []
          ''infected/2026/01/02/uploads/docs/Report.PDF''
          [(''original-bucket'', AJson (JStr ''uploads'')),
           (''original-key'', AJson (JStr ''docs/Report.PDF'')),
           (''scan-result'', AStr ''Eicar-Test-Signature FOUND''),
           (''quarantine-date'', AStr ''2026-01-02T03:04:05'')],
        S3_delete_object (JStr ''uploads'') (JStr ''docs/Report.PDF''),
        Print_alert ''MALWARE_DETECTED''
          [(''bucket'', AJson (JStr ''uploads'')),
           (''key'', AJson (JStr ''docs/Report.PDF'')),
           (''scan_result'', AStr ''Eicar-Test-Signature FOUND''),
           (''quarantine_location'', AStr ''s3:///infected/2026/01/02/uploads/docs/Report.PDF''),
           (''action'', AStr ''File quarantined and deleted from source'')]]
   \<and> fst (scan_file env_stderr (JStr ''uploads'') (JStr ''docs/Report.PDF'') start) =
       Inr \<lparr>infected = True, details = ''Eicar-Test-Signature FOUND''\<rparr>
   \<and> fst (handler env_stderr (upload_event ''docs/Report.PDF'' 1024) start) =
       Inr \<lparr>statusCode = 200, body = ''Infected file quarantined''\<rparr>"
proof -
  have d: "download_file_outcome env0 = None" by (simp add: env0_def)
  have c: "clamscan_exists env0" by (simp add: env0_def)
  have r: "subprocess_run_outcome env0 = Completed 1 '' Eicar-Test-Signature FOUND '' []"
    by (simp add: env0_def)
  have cp: "copy_object_outcome env0 = None" by (simp add: env0_def)
  have dl: "delete_object_outcome env0 = None" by (simp add: env0_def)
  have q: "QUARANTINE_BUCKET (cfg env0) = []" "ALERT_TOPIC_ARN (cfg env0) = []"
    by (simp_all add: env0_def default_config_def)
  have u: "utcnow env0 = clock0" by (simp add: env0_def)
  have stdout_case:
    "fst (scan_file env0 (JStr ''uploads'') (JStr ''docs/Report.PDF'') start) =
       Inr \<lparr>infected = True, details = ''Eicar-Test-Signature FOUND''\<rparr>
   \<and> fst (handler env0 (upload_event ''docs/Report.PDF'' 1024) start) =
       Inr \<lparr>statusCode = 200, body = ''Infected file quarantined''\<rparr>
   \<and> trace (snd (handler env0 (upload_event ''docs/Report.PDF'' 1024) start)) =
       trace (snd (scan_file env0 (JStr ''uploads'') (JStr ''docs/Report.PDF'') start)) @
       [S3_copy_object (JStr ''uploads'') (JStr ''docs/Report.PDF'') []
          ''infected/2026/01/02/uploads/docs/Report.PDF''
          [(''original-bucket'', AJson (JStr ''uploads'')),
           (''original-key'', AJson (JStr ''docs/Report.PDF'')),
           (''scan-result'', AStr ''Eicar-Test-Signature FOUND''),
           (''quarantine-date'', AStr ''2026-01-02T03:04:05'')],
        S3_delete_object (JStr ''uploads'') (JStr ''docs/Report.PDF''),
        Print_alert ''MALWARE_DETECTED''
          [(''bucket'', AJson (JStr ''uploads'')),
           (''key'', AJson (JStr ''docs/Report.PDF'')),
           (''scan_result'', AStr ''Eicar-Test-Signature FOUND''),
           (''quarantine_location'', AStr ''s3:///infected/2026/01/02/uploads/docs/Report.PDF''),
           (''action'', AStr ''File quarantined and deleted from source'')]]"
    using handler_quarantines_infected
      [OF parse_upload_event size_1024_env0 ext_report_scanned d c r cp dl publish_env0, of start]
    by (simp add: strip_stdout_finding q u clock0_def py_str_def)
  have g': "py_gt (JInt 1024) (MAX_FILE_SIZE (cfg env_stderr)) = Inr False"
    using size_1024_env0 by (simp add: env_stderr_def)
  have d': "download_file_outcome env_stderr = None" by (simp add: env_stderr_def env0_def)
  have c': "clamscan_exists env_stderr" by (simp add: env_stderr_def env0_def)
  have r': "subprocess_run_outcome env_stderr =
      Completed 1 ''\<newline>'' ''Eicar-Test-Signature FOUND\<newline>''"
    by (simp add: env_stderr_def)
  have cp': "copy_object_outcome env_stderr = None" by (simp add: env_stderr_def env0_def)
  have dl': "delete_object_outcome env_stderr = None" by (simp add: env_stderr_def env0_def)
  have p': "provider_error_only (sns_publish_outcome env_stderr ''MALWARE_DETECTED'')"
    using publish_env0 [of "''MALWARE_DETECTED''"] by (simp add: env_stderr_def)
  have stderr_case:
    "fst (scan_file env_stderr (JStr ''uploads'') (JStr ''docs/Report.PDF'') start) =
       Inr \<lparr>infected = True, details = ''Eicar-Test-Signature FOUND''\<rparr>
   \<and> fst (handler env_stderr (upload_event ''docs/Report.PDF'' 1024) start) =
       Inr \<lparr>statusCode = 200, body = ''Infected file quarantined''\<rparr>"
    using handler_quarantines_infected
      [OF parse_upload_event g' ext_report_scanned d' c' r' cp' dl' p', of start]
    by (simp add: strip_newline strip_stderr_finding)
  show ?thesis using stdout_case stderr_case by blast
qed

subsection \<open>Failure of the quarantine copy\<close>

text \<open>
  C2, as amended. When the scan result is infected and the quarantine copy fails, the
  failure propagates to the handler's caller and no delete of the original is issued. A
  \<open>QUARANTINE_FAILED\<close> alert is emitted exactly when the failure is a \<open>ClientError\<close>, the
  class that \<open>except ClientError\<close> catches; for any other exception only the handler's
  \<open>SCAN_ERROR\<close> alert is emitted. In no case is a \<open>MALWARE_DETECTED\<close> alert emitted. The publication of the alerts is taken to succeed or to
  fail with a \<open>ClientError\<close>.
\<close>

theorem copy_failure_propagates:
  assumes "parse_event event = Inr (bucket, key, size')"
    and "py_gt size' (MAX_FILE_SIZE (cfg env)) = Inr False"
    and "py_lower key = Inr lowered"
    and "snd (splitext lowered) \<notin> SKIP_EXTENSIONS"
    and "fst (scan_file env bucket key s) = Inr sr"
    and "infected sr"
    and "copy_object_outcome env = Some e"
    and "provider_error_only (sns_publish_outcome env ''QUARANTINE_FAILED'')"
    and "provider_error_only (sns_publish_outcome env ''SCAN_ERROR'')"
    and "trace s = []"
  shows "fst (handler env event s) = Inl e
     \<and> \<not> list_ex is_delete (trace (snd (handler env event s)))
     \<and> list_ex (is_alert ''QUARANTINE_FAILED'') (trace (snd (handler env event s))) = is_ClientError e
     \<and> list_ex (is_alert ''SCAN_ERROR'') (trace (snd (handler env event s)))
     \<and> \<not> list_ex (is_alert ''MALWARE_DETECTED'') (trace (snd (handler env event s)))"
proof -
  obtain s1 where sf: "scan_file env bucket key s = (Inr sr, s1)"
    using assms(5) by (cases "scan_file env bucket key s") simp
  have nd: "\<not> list_ex is_delete (trace s1)"
    using scan_file_trace_no_delete [of env bucket key s] assms(10) by (simp add: sf)
  have na: "\<not> list_ex (is_alert ''QUARANTINE_FAILED'') (trace s1)"
    using scan_file_trace_no_alert [of "''QUARANTINE_FAILED''" env bucket key s] assms(10)
    by (simp add: sf)
  obtain s2 where hi: "handle_infected_file env bucket key sr s1 = (Inl e, s2)"
    using handle_infected_file_copy_fails(1) [OF assms(7,8), of bucket key sr s1]
    by (cases "handle_infected_file env bucket key sr s1") simp
  have d2: "\<not> list_ex is_delete (trace s2)"
    using handle_infected_file_copy_fails(2) [OF assms(7,8) nd, of bucket key sr] by (simp add: hi)
  have a2: "list_ex (is_alert ''QUARANTINE_FAILED'') (trace s2) = is_ClientError e"
    using handle_infected_file_copy_fails(3) [OF assms(7,8) na, of bucket key sr] by (simp add: hi)
  have nm: "\<not> list_ex (is_alert ''MALWARE_DETECTED'') (trace s1)"
    using scan_file_trace_no_alert [of "''MALWARE_DETECTED''" env bucket key s] assms(10)
    by (simp add: sf)
  have m2: "\<not> list_ex (is_alert ''MALWARE_DETECTED'') (trace s2)"
    using handle_infected_file_copy_fails(5) [OF assms(7,8), of bucket key sr s1] nm
    by (simp add: hi)
  have h: "handler_try env event s = (Inl e, s2)"
    using assms(6) by (simp add: handler_try_scan [OF assms(1-4)] sf hi returning_def)
  show ?thesis
    using d2 a2 m2 by (simp add: handler_raises [OF h assms(9)])
qed

theorem copy_failure_propagates_witness:
  "fst (handler env_copy_denied (upload_event ''docs/Report.PDF'' 1024) start) =
       Inl (ClientError ''AccessDenied'')
   \<and> \<not> list_ex is_delete
         (trace (snd (handler env_copy_denied (upload_event ''docs/Report.PDF'' 1024) start)))
   \<and> list_ex (is_alert ''QUARANTINE_FAILED'')
         (trace (snd (handler env_copy_denied (upload_event ''docs/Report.PDF'' 1024) start)))
   \<and> list_ex (is_alert ''SCAN_ERROR'')
         (trace (snd (handler env_copy_denied (upload_event ''docs/Report.PDF'' 1024) start)))
   \<and> \<not> list_ex (is_alert ''MALWARE_DETECTED'')
         (trace (snd (handler env_copy_denied (upload_event ''docs/Report.PDF'' 1024) start)))"
proof -
  let ?sr = "\<lparr>infected = True,
              details = py_or (strip '' Eicar-Test-Signature FOUND '') (strip [])\<rparr>"
  have g: "py_gt (JInt 1024) (MAX_FILE_SIZE (cfg env_copy_denied)) = Inr False"
    using size_1024_env0 by (simp add: env_copy_denied_def)
  have l: "py_lower (JStr ''docs/Report.PDF'') = Inr (lower ''docs/Report.PDF'')" by simp
  have sc: "fst (scan_file env_copy_denied (JStr ''uploads'') (JStr ''docs/Report.PDF'') start) = Inr ?sr"
    by (simp add: scan_file_run env_copy_denied_def env0_def)
  have i: "infected ?sr" by simp
  have cp: "copy_object_outcome env_copy_denied = Some (ClientError ''AccessDenied'')"
    by (simp add: env_copy_denied_def)
  have p1: "provider_error_only (sns_publish_outcome env_copy_denied ''QUARANTINE_FAILED'')"
    using publish_env0 [of "''QUARANTINE_FAILED''"] by (simp add: env_copy_denied_def)
  have p2: "provider_error_only (sns_publish_outcome env_copy_denied ''SCAN_ERROR'')"
    using publish_env0 [of "''SCAN_ERROR''"] by (simp add: env_copy_denied_def)
  have t: "trace start = []" by (simp add: start_def)
  show ?thesis
    using copy_failure_propagates [OF parse_upload_event g l ext_report_scanned sc i cp p1 p2 t]
    by simp
qed

text \<open>
  C2, as stated, fails: the SDK rejects the copy with an exception that is not a
  \<open>ClientError\<close>. The scan result is infected and the copy fails, the error reaches the
  caller, and no \<open>QUARANTINE_FAILED\<close> alert is emitted.
\<close>

theorem copy_failure_without_quarantine_alert:
  "fst (scan_file env_copy_invalid (JStr ''uploads'') (JStr ''docs/Report.PDF'') start) =
      Inr \<lparr>infected = True, details = ''Eicar-Test-Signature FOUND''\<rparr>
   \<and> copy_object_outcome env_copy_invalid = Some (OtherError ''ParamValidationError'')
   \<and> fst (handler env_copy_invalid (upload_event ''docs/Report.PDF'' 1024) start) =
       Inl (OtherError ''ParamValidationError'')
   \<and> \<not> list_ex (is_alert ''QUARANTINE_FAILED'')
         (trace (snd (handler env_copy_invalid (upload_event ''docs/Report.PDF'' 1024) start)))"
  by code_simp

subsection \<open>Failure of the tag write\<close>

text \<open>
  C9, as amended. When the tag write fails with a \<open>ClientError\<close>, \<open>tag_object\<close> returns
  normally, and the handler still returns status 200 on the three paths that write a tag:
  the file is too large, the file is a media file, the file was scanned and is clean.
  A tag write that fails with any other exception makes \<open>tag_object\<close> raise it.
\<close>

theorem tagging_ClientError_swallowed:
  assumes "put_object_tagging_outcome env = Some (ClientError m)"
  shows "fst (tag_object env bucket key status dt s) = Inr ()
     \<and> (parse_event event = Inr (bucket, key, JInt n) \<and> n > MAX_FILE_SIZE (cfg env) \<longrightarrow>
          fst (handler env event s) = Inr \<lparr>statusCode = 200, body = ''File too large - skipped''\<rparr>)
     \<and> (parse_event event = Inr (bucket, JStr k, size')
          \<and> py_gt size' (MAX_FILE_SIZE (cfg env)) = Inr False
          \<and> snd (splitext (lower k)) \<in> SKIP_EXTENSIONS \<longrightarrow>
          fst (handler env event s) =
            Inr \<lparr>statusCode = 200, body = ''Media file - basic validation passed''\<rparr>)
     \<and> (parse_event event = Inr (bucket, JStr k, size')
          \<and> py_gt size' (MAX_FILE_SIZE (cfg env)) = Inr False
          \<and> snd (splitext (lower k)) \<notin> SKIP_EXTENSIONS
          \<and> fst (scan_file env bucket (JStr k) s) = Inr sr \<and> \<not> infected sr \<longrightarrow>
          fst (handler env event s) = Inr \<lparr>statusCode = 200, body = ''File scanned - clean''\<rparr>)
     \<and> (put_object_tagging_outcome env' = Some e \<and> \<not> is_ClientError e \<longrightarrow>
          fst (tag_object env' bucket key status dt s) = Inl e)"
proof -
  have t: "provider_error_only (put_object_tagging_outcome env)"
    using assms by (simp add: provider_error_only_def)
  have 1: "fst (tag_object env bucket key status dt s) = Inr ()"
    by (simp add: tag_object_ok [OF t])
  have 2: "fst (handler env event s) = Inr \<lparr>statusCode = 200, body = ''File too large - skipped''\<rparr>"
    if "parse_event event = Inr (bucket, key, JInt n)" "n > MAX_FILE_SIZE (cfg env)"
    using that by (simp add: handler_def handler_try_def returning_def tag_object_ok [OF t])
  have 3: "fst (handler env event s) =
            Inr \<lparr>statusCode = 200, body = ''Media file - basic validation passed''\<rparr>"
    if "parse_event event = Inr (bucket, JStr k, size')"
       "py_gt size' (MAX_FILE_SIZE (cfg env)) = Inr False"
       "snd (splitext (lower k)) \<in> SKIP_EXTENSIONS"
    using that by (simp add: handler_def handler_try_def returning_def tag_object_ok [OF t])
  have 4: "fst (handler env event s) = Inr \<lparr>statusCode = 200, body = ''File scanned - clean''\<rparr>"
    if p: "parse_event event = Inr (bucket, JStr k, size')"
       "py_gt size' (MAX_FILE_SIZE (cfg env)) = Inr False"
       and x: "snd (splitext (lower k)) \<notin> SKIP_EXTENSIONS"
       and r: "fst (scan_file env bucket (JStr k) s) = Inr sr" "\<not> infected sr"
  proof -
    obtain s1 where sf: "scan_file env bucket (JStr k) s = (Inr sr, s1)"
      using r(1) by (cases "scan_file env bucket (JStr k) s") simp
    have l: "py_lower (JStr k) = Inr (lower k)" by simp
    show ?thesis
      using r(2)
      by (simp add: handler_def handler_try_scan [OF p l x] sf returning_def tag_object_ok [OF t])
  qed
  have 5: "fst (tag_object env' bucket key status dt s) = Inl e"
    if "put_object_tagging_outcome env' = Some e" "\<not> is_ClientError e"
    using that
    by (simp add: tag_object_def utcnow_read_def except_ClientError_pass_def Let_def)
  show ?thesis using 1 2 3 4 5 by blast
qed

theorem tagging_ClientError_swallowed_witness:
  "fst (tag_object env_tag_denied (JStr ''uploads'') (JStr ''backups/disk.img'')
          ''skipped'' ''File too large'' start) = Inr ()
   \<and> fst (handler env_tag_denied (upload_event ''backups/disk.img'' 524288001) start) =
        Inr \<lparr>statusCode = 200, body = ''File too large - skipped''\<rparr>
   \<and> fst (handler env_tag_denied (upload_event ''photos/2026/IMG_0001.JPeG'' 524288000) start) =
        Inr \<lparr>statusCode = 200, body = ''Media file - basic validation passed''\<rparr>
   \<and> fst (handler env_tag_denied (upload_event ''docs/Report.PDF'' 1024) start) =
        Inr \<lparr>statusCode = 200, body = ''File scanned - clean''\<rparr>
   \<and> fst (tag_object env_tag_unreachable (JStr ''uploads'') (JStr ''backups/disk.img'')
          ''skipped'' ''File too large'' start) = Inl (OtherError ''EndpointConnectionError'')"
proof -
  have tg: "put_object_tagging_outcome env_tag_denied = Some (ClientError ''AccessDenied'')"
    by (simp add: env_tag_denied_def)
  have m: "MAX_FILE_SIZE (cfg env_tag_denied) = 524288000"
    using MAX_FILE_SIZE_env0 by (simp add: env_tag_denied_def)
  have sc: "fst (scan_file env_tag_denied (JStr ''uploads'') (JStr ''docs/Report.PDF'') start) =
      Inr \<lparr>infected = False, details = ''No threats detected''\<rparr>"
    by (simp add: scan_file_run env_tag_denied_def env0_def)
  note large = tagging_ClientError_swallowed [OF tg,
      where event = "upload_event ''backups/disk.img'' 524288001" and bucket = "JStr ''uploads''"
        and key = "JStr ''backups/disk.img''" and n = 524288001 and s = start
        and status = "''skipped''" and dt = "''File too large''"
        and env' = env_tag_unreachable and e = "OtherError ''EndpointConnectionError''"]
  note media = tagging_ClientError_swallowed [OF tg,
      where event = "upload_event ''photos/2026/IMG_0001.JPeG'' 524288000"
        and bucket = "JStr ''uploads''" and k = "''photos/2026/IMG_0001.JPeG''"
        and size' = "JInt 524288000" and s = start]
  note clean = tagging_ClientError_swallowed [OF tg,
      where event = "upload_event ''docs/Report.PDF'' 1024"
        and bucket = "JStr ''uploads''" and k = "''docs/Report.PDF''"
        and size' = "JInt 1024" and s = start
        and sr = "\<lparr>infected = False, details = ''No threats detected''\<rparr>"]
  have 1: "fst (tag_object env_tag_denied (JStr ''uploads'') (JStr ''backups/disk.img'')
          ''skipped'' ''File too large'' start) = Inr ()"
    using large by blast
  have 2: "fst (handler env_tag_denied (upload_event ''backups/disk.img'' 524288001) start) =
        Inr \<lparr>statusCode = 200, body = ''File too large - skipped''\<rparr>"
    using large by (simp add: parse_upload_event m)
  have 3: "fst (handler env_tag_denied (upload_event ''photos/2026/IMG_0001.JPeG'' 524288000) start) =
        Inr \<lparr>statusCode = 200, body = ''Media file - basic validation passed''\<rparr>"
    using media by (simp add: parse_upload_event m ext_IMG SKIP_EXTENSIONS_def)
  have 4: "fst (handler env_tag_denied (upload_event ''docs/Report.PDF'' 1024) start) =
        Inr \<lparr>statusCode = 200, body = ''File scanned - clean''\<rparr>"
    using clean by (simp add: parse_upload_event m ext_report SKIP_EXTENSIONS_def sc)
  have 5: "fst (tag_object env_tag_unreachable (JStr ''uploads'') (JStr ''backups/disk.img'')
          ''skipped'' ''File too large'' start) = Inl (OtherError ''EndpointConnectionError'')"
    using large [THEN conjunct2, THEN conjunct2, THEN conjunct2, THEN conjunct2]
    by (simp add: env_tag_unreachable_def)
  show ?thesis using 1 2 3 4 5 by blast
qed

text \<open>
  C9, as stated, fails: the tag write fails with an exception that is not a
  \<open>ClientError\<close>. \<open>tag_object\<close> raises it, and the handler raises it to its caller on the
  path of a file that is too large.
\<close>

theorem tagging_other_error_escalates:
  "put_object_tagging_outcome env_tag_unreachable = Some (OtherError ''EndpointConnectionError'')
   \<and> fst (tag_object env_tag_unreachable (JStr ''uploads'') (JStr ''backups/disk.img'')
           ''skipped'' ''File too large'' start) = Inl (OtherError ''EndpointConnectionError'')
   \<and> fst (handler env_tag_unreachable (upload_event ''backups/disk.img'' 524288001) start) =
       Inl (OtherError ''EndpointConnectionError'')"
  by code_simp

subsection \<open>The calls of an invocation name one object\<close>

lemma grows_refl: "grows b k s s"
  by (simp add: grows_def)

lemma grows_trans: "grows b k s s' \<Longrightarrow> grows b k s' s'' \<Longrightarrow> grows b k s s''"
  by (auto simp: grows_def)

lemma grows_issued: "grows b k s s' \<Longrightarrow> list_all (addresses b k) (issued s s')"
  by (auto simp: grows_def issued_def)

lemma grows_send_alert: "grows b k s (snd (send_alert env t d s))"
  by (simp add: grows_def send_alert_def utcnow_read_def emit_def tick_def Let_def)

lemma grows_tag_object: "grows b k s (snd (tag_object env b k st dt s))"
  by (simp add: grows_def tag_object_def utcnow_read_def emit_def tick_def Let_def)

lemma grows_scan_file: "grows b k s (snd (scan_file env b k s))"
  by (simp add: grows_def scan_file_split scan_file_finally_trace scan_file_try_def
      external_step_def emit_def Let_def split: option.splits run_outcome.splits)

lemma grows_handle_infected_file_try:
  "grows b k s (snd (handle_infected_file_try env b k sr qk s))"
  by (simp add: grows_def handle_infected_file_try_def send_alert_def utcnow_read_def emit_def
      tick_def Let_def split: option.splits)

lemma snd_reraise:
  "snd (case r of (Inl e', s3) \<Rightarrow> (Inl e', s3) | (Inr u, s3) \<Rightarrow> (Inl e, s3)) = snd r"
  by (simp split: prod.splits sum.splits)

lemma grows_handle_infected_file: "grows b k s (snd (handle_infected_file env b k sr s))"
proof -
  let ?qk = "''infected/'' @ strftime_Ymd (utcnow env (ticks s)) @ ''/'' @ py_str env b
               @ ''/'' @ py_str env k"
  let ?r = "handle_infected_file_try env b k sr ?qk (tick s)"
  have 0: "grows b k s (tick s)" by (simp add: grows_def tick_def)
  have 1: "grows b k s (snd ?r)"
    by (rule grows_trans [OF 0 grows_handle_infected_file_try])
  show ?thesis
  proof (cases ?r)
    case (Pair x s2)
    then have g2: "grows b k s s2" using 1 by simp
    show ?thesis
    proof (cases x)
      case (Inr u)
      then show ?thesis using Pair g2
        by (simp add: handle_infected_file_def utcnow_read_def Let_def)
    next
      case (Inl e)
      have "grows b k s (snd (send_alert env ''QUARANTINE_FAILED''
                       [(''bucket'', AJson b), (''key'', AJson k),
                        (''scan_result'', AStr (details sr)), (''error'', AErr e)] s2))"
        by (rule grows_trans [OF g2 grows_send_alert])
      then show ?thesis using Pair Inl g2
        by (simp add: handle_infected_file_def utcnow_read_def Let_def snd_reraise)
    qed
  qed
qed

lemma grows_returning: "grows b k s (snd r) \<Longrightarrow> grows b k s (snd (returning body' r))"
  by (cases r) (simp add: returning_def split: sum.splits)

lemma grows_handler_try:
  assumes "parse_event event = Inr (b, k, size')"
  shows "grows b k s (snd (handler_try env event s))"
proof (cases "py_gt size' (MAX_FILE_SIZE (cfg env))")
  case (Inl e)
  then show ?thesis using assms by (simp add: handler_try_def grows_refl)
next
  case (Inr big)
  show ?thesis
  proof (cases big)
    case True
    then show ?thesis using assms Inr
      by (simp add: handler_try_def grows_returning grows_tag_object)
  next
    case False
    show ?thesis
    proof (cases "py_lower k")
      case (Inl e)
      then show ?thesis using assms Inr False by (simp add: handler_try_def grows_refl)
    next
      case lo: (Inr lowered)
      show ?thesis
      proof (cases "snd (splitext lowered) \<in> SKIP_EXTENSIONS")
        case True
        then show ?thesis using assms Inr False lo
          by (simp add: handler_try_def grows_returning grows_tag_object)
      next
        case ns: False
        obtain x s1 where sf: "scan_file env b k s = (x, s1)"
          by (cases "scan_file env b k s")
        have g1: "grows b k s s1" using grows_scan_file [of b k s env] by (simp add: sf)
        show ?thesis
        proof (cases x)
          case (Inl e)
          then show ?thesis using assms Inr False lo ns sf g1 by (simp add: handler_try_def)
        next
          case (Inr sr)
          have a: "grows b k s (snd (returning ''Infected file quarantined''
                      (handle_infected_file env b k sr s1)))"
            by (rule grows_returning [OF grows_trans [OF g1 grows_handle_infected_file]])
          have c: "grows b k s (snd (returning ''File scanned - clean''
                      (tag_object env b k ''clean'' [] s1)))"
            by (rule grows_returning [OF grows_trans [OF g1 grows_tag_object]])
          show ?thesis using assms \<open>py_gt size' (MAX_FILE_SIZE (cfg env)) = Inr big\<close> False lo ns sf Inr a c
            by (simp add: handler_try_def)
        qed
      qed
    qed
  qed
qed

lemma grows_handler:
  assumes "parse_event event = Inr (b, k, size')"
  shows "grows b k s (snd (handler env event s))"
proof (cases "handler_try env event s")
  case (Pair x s1)
  have g1: "grows b k s s1" using grows_handler_try [OF assms, of s env] by (simp add: Pair)
  show ?thesis
  proof (cases x)
    case (Inr r)
    then show ?thesis using Pair g1 by (simp add: handler_def)
  next
    case (Inl e)
    have "grows b k s (snd (send_alert env ''SCAN_ERROR''
                  [(''error'', AErr e), (''event'', AJson (JObj event))] s1))"
      by (rule grows_trans [OF g1 grows_send_alert])
    then show ?thesis using Pair Inl by (simp add: handler_def snd_reraise)
  qed
qed

subsection \<open>Only the first record is read\<close>

text \<open>
  C10. For an event of the \<open>Records\<close> shape, \<open>parse_event\<close> reads the first record only.
  Two events without a \<open>detail\<close> key whose lists of records begin with the same record
  give the same result (the same bucket, key and size, or the same error), and the handler
  does the same with both. When the first record has the fields \<open>s3.bucket.name\<close> and
  \<open>s3.object.key\<close>, the result is that name, that key and the \<open>s3.object.size\<close> of
  that record (0 when the record has none). Every S3 call of the invocation (download,
  copy, delete, tag write) names that bucket and that key: one object is processed.
\<close>

theorem parse_event_first_record_only:
  assumes "map_of event ''detail'' = None"
    and "map_of event' ''detail'' = None"
    and "map_of event ''Records'' = Some (JList (r # rs))"
    and "map_of event' ''Records'' = Some (JList (r # rs'))"
  shows "parse_event event = parse_event event'
     \<and> handler_try env event s = handler_try env event' s
     \<and> (r = JObj items
          \<and> map_of items ''s3'' = Some (JObj s3)
          \<and> map_of s3 ''bucket'' = Some (JObj bk)
          \<and> map_of bk ''name'' = Some bucket
          \<and> map_of s3 ''object'' = Some (JObj ob)
          \<and> map_of ob ''key'' = Some key \<longrightarrow>
        parse_event event =
          Inr (bucket, key, case map_of ob ''size'' of None \<Rightarrow> JInt 0 | Some v \<Rightarrow> v))
     \<and> (parse_event event = Inr (bucket, key, size') \<longrightarrow>
        list_all (addresses bucket key) (issued s (snd (handler env event s))))"
proof -
  have 1: "parse_event event = parse_event event'"
    using assms by (simp add: parse_event_def ebind_def)
  then have 2: "handler_try env event s = handler_try env event' s"
    by (simp add: handler_try_def)
  have 3: "parse_event event =
          Inr (bucket, key, case map_of ob ''size'' of None \<Rightarrow> JInt 0 | Some v \<Rightarrow> v)"
    if "r = JObj items" "map_of items ''s3'' = Some (JObj s3)"
       "map_of s3 ''bucket'' = Some (JObj bk)" "map_of bk ''name'' = Some bucket"
       "map_of s3 ''object'' = Some (JObj ob)" "map_of ob ''key'' = Some key"
    using assms(1,3) that by (simp add: parse_event_def ebind_def)
  have 4: "list_all (addresses bucket key) (issued s (snd (handler env event s)))"
    if "parse_event event = Inr (bucket, key, size')"
    by (rule grows_issued [OF grows_handler [OF that]])
  show ?thesis using 1 2 3 4 by blast
qed

theorem parse_event_first_record_only_witness:
  "parse_event (records_event [s3_record ''uploads'' ''a.txt'', s3_record ''uploads'' ''b.txt''])
     = parse_event (records_event [s3_record ''uploads'' ''a.txt''])
   \<and> handler_try env0
        (records_event [s3_record ''uploads'' ''a.txt'', s3_record ''uploads'' ''b.txt'']) start
     = handler_try env0 (records_event [s3_record ''uploads'' ''a.txt'']) start
   \<and> parse_event (records_event [s3_record ''uploads'' ''a.txt'', s3_record ''uploads'' ''b.txt''])
     = Inr (JStr ''uploads'', JStr ''a.txt'', JInt 0)
   \<and> list_all (addresses (JStr ''uploads'') (JStr ''a.txt''))
        (issued start (snd (handler env0
           (records_event [s3_record ''uploads'' ''a.txt'', s3_record ''uploads'' ''b.txt''])
           start)))"
proof -
  have d2: "map_of (records_event [s3_record ''uploads'' ''a.txt'', s3_record ''uploads'' ''b.txt''])
      ''detail'' = None"
    by (simp add: records_event_def)
  have d1: "map_of (records_event [s3_record ''uploads'' ''a.txt'']) ''detail'' = None"
    by (simp add: records_event_def)
  have r2: "map_of (records_event [s3_record ''uploads'' ''a.txt'', s3_record ''uploads'' ''b.txt''])
      ''Records'' = Some (JList (s3_record ''uploads'' ''a.txt'' # [s3_record ''uploads'' ''b.txt'']))"
    by (simp add: records_event_def)
  have r1: "map_of (records_event [s3_record ''uploads'' ''a.txt''])
      ''Records'' = Some (JList (s3_record ''uploads'' ''a.txt'' # []))"
    by (simp add: records_event_def)
  note first = parse_event_first_record_only [OF d2 d1 r2 r1,
      where env = env0 and s = start
        and items = "[(''s3'', JObj [(''bucket'', JObj [(''name'', JStr ''uploads'')]),
                                     (''object'', JObj [(''key'', JStr ''a.txt'')])])]"
        and ?s3.0 = "[(''bucket'', JObj [(''name'', JStr ''uploads'')]),
                      (''object'', JObj [(''key'', JStr ''a.txt'')])]"
        and bk = "[(''name'', JStr ''uploads'')]" and bucket = "JStr ''uploads''"
        and ob = "[(''key'', JStr ''a.txt'')]" and key = "JStr ''a.txt''"
        and size' = "JInt 0"]
  note same_result = first [THEN conjunct1]
  note same_handling = first [THEN conjunct2, THEN conjunct1]
  note extraction = first [THEN conjunct2, THEN conjunct2, THEN conjunct1]
  note one_object = first [THEN conjunct2, THEN conjunct2, THEN conjunct2]
  have v: "parse_event (records_event [s3_record ''uploads'' ''a.txt'', s3_record ''uploads'' ''b.txt''])
      = Inr (JStr ''uploads'', JStr ''a.txt'', JInt 0)"
    using extraction by (simp add: s3_record_def)
  have o: "list_all (addresses (JStr ''uploads'') (JStr ''a.txt''))
        (issued start (snd (handler env0
           (records_event [s3_record ''uploads'' ''a.txt'', s3_record ''uploads'' ''b.txt''])
           start)))"
    using one_object v by blast
  show ?thesis using same_result same_handling v o by blast
qed

end
